theory Spec2Isabelle
  imports Main "HOL-Library.Char_ord" "HOL-Library.List_Lexorder" "HOL-Library.Multiset"
begin

section \<open>Conventions of the embedding\<close>

text \<open>
  The development embeds the data aggregator (\<^verbatim>\<open>src/app/lib/countryData.ts\<close>) and the
  derivation logic of the dashboard (\<^verbatim>\<open>src/app/components/CountryDashboard.tsx\<close>; the
  second dashboard variant contains the same three derivations character for character).

  \<^item> A JavaScript \<^verbatim>\<open>number\<close> is an \<open>int\<close>: the population counts and GDP amounts are
    taken to be integral and below \<open>2^53\<close>, where the subtraction of the comparators is exact.
  \<^item> A JavaScript string is a \<open>string\<close>; a character stands for one code unit. The
    placeholder \<^verbatim>\<open>U+2014\<close> (em dash) is written as its three UTF-8 bytes.
  \<^item> An optional property (\<^verbatim>\<open>capital?\<close>, \<^verbatim>\<open>currencies?\<close>, and the codes the filter
    tests for presence) is an \<open>option\<close>; \<open>None\<close> is \<^verbatim>\<open>undefined\<close>.
  \<^item> \<^verbatim>\<open>Array.prototype.sort\<close> is stable (ECMAScript 2019); it is modelled by the stable
    insertion sort \<open>jsSort\<close> driven by the comparator's sign.
  \<^item> \<^verbatim>\<open>throw new Error(msg)\<close> is the left injection \<open>Inl (Error msg)\<close>.
  \<^item> \<open>getCountries\<close> takes the two responses the fetches resolved to; their bodies have
    the shapes the source casts them to, except that the second element of the GDP body
    may fail \<^verbatim>\<open>Array.isArray\<close>, which the source tests.
\<close>

section \<open>Arrays: join and sort\<close>

text \<open>\<^verbatim>\<open>Array.prototype.join(sep)\<close> on an array of strings.\<close>

fun join :: "string \<Rightarrow> string list \<Rightarrow> string" where
  "join sep [] = []"
| "join sep [x] = x"
| "join sep (x # y # ys) = x @ sep @ join sep (y # ys)"

text \<open>
  \<^verbatim>\<open>Array.prototype.sort(cmp)\<close>: \<open>x\<close> goes before \<open>y\<close> when \<open>cmp x y \<le> 0\<close> and \<open>x\<close>
  came first in the input, so equal elements keep their input order.
\<close>

fun insertBy :: "('a \<Rightarrow> 'a \<Rightarrow> int) \<Rightarrow> 'a \<Rightarrow> 'a list \<Rightarrow> 'a list" where
  "insertBy cmp x [] = [x]"
| "insertBy cmp x (y # ys) = (if cmp x y \<le> 0 then x # y # ys else y # insertBy cmp x ys)"

fun jsSort :: "('a \<Rightarrow> 'a \<Rightarrow> int) \<Rightarrow> 'a list \<Rightarrow> 'a list" where
  "jsSort cmp [] = []"
| "jsSort cmp (x # xs) = insertBy cmp x (jsSort cmp xs)"

text \<open>
  \<^verbatim>\<open>sort()\<close> without a comparator orders strings by their code units.
\<close>

definition defaultCompare :: "string \<Rightarrow> string \<Rightarrow> int" where
  "defaultCompare a b = (if a < b then - 1 else if b < a then 1 else 0)"

text \<open>
  \<^verbatim>\<open>Array.from(new Set(xs))\<close>: the elements of \<open>xs\<close> in the order of their first
  occurrence, each once.
\<close>

fun setAdd :: "'a list \<Rightarrow> 'a \<Rightarrow> 'a list" where
  "setAdd s x = (if x \<in> set s then s else s @ [x])"

definition newSet :: "'a list \<Rightarrow> 'a list" where
  "newSet xs = foldl setAdd [] xs"

section \<open>Data aggregator\<close>

subsection \<open>Types\<close>

text \<open>
  \<^verbatim>\<open>RestCountry\<close>; the fields carry the prefix \<open>rc_\<close> to keep them apart from those of
  \<^verbatim>\<open>CountryRecord\<close>. \<open>rc_name\<close> is \<^verbatim>\<open>name.common\<close>. \<open>rc_currencies\<close> lists the
  entries of the currencies object, as (code, name) pairs in the order of \<^verbatim>\<open>Object.values\<close>.
\<close>

record RestCountry =
  rc_name :: string
  rc_cca2 :: "string option"
  rc_cca3 :: "string option"
  rc_capital :: "string list option"
  rc_region :: string
  rc_population :: int
  rc_currencies :: "(string \<times> string) list option"

record CountryRecord =
  name :: string
  cca2 :: string
  cca3 :: string
  capital :: string
  region :: string
  population :: int
  currencies :: string
  gdp :: "int option"

text \<open>
  \<^verbatim>\<open>WorldBankEntry\<close>: \<open>country_id\<close> is \<^verbatim>\<open>entry.country?.id\<close> (\<open>None\<close> when the country
  or its id is absent), \<open>entry_value\<close> is \<^verbatim>\<open>entry.value\<close> (\<open>None\<close> is \<^verbatim>\<open>null\<close>).
\<close>

record WorldBankEntry =
  country_id :: "string option"
  entry_value :: "int option"

text \<open>The second element of the GDP body, \<^verbatim>\<open>gdpJson[1]\<close>.\<close>

datatype GdpSecond = EntryArray "WorldBankEntry list" | NotArray

text \<open>A fetch response: its \<^verbatim>\<open>ok\<close> flag and the value \<^verbatim>\<open>json()\<close> resolves to.\<close>

record 'b Response =
  ok :: bool
  json :: 'b

datatype error = Error string

definition emDash :: string where
  "emDash = [CHR 0xE2, CHR 0x80, CHR 0x94]"

subsection \<open>Functions\<close>

text \<open>Truthiness of a possibly absent string: absent and empty are falsy.\<close>

fun truthy :: "string option \<Rightarrow> bool" where
  "truthy None = False"
| "truthy (Some s) = (s \<noteq> [])"

fun buildCurrencyLabel :: "(string \<times> string) list option \<Rightarrow> string" where
  "buildCurrencyLabel None = emDash"
| "buildCurrencyLabel (Some cs) = join '', '' (map snd cs)"

text \<open>The loop of \<^verbatim>\<open>pickLatestGdp\<close>, with the map being built as accumulator.\<close>

fun pickLoop :: "WorldBankEntry list \<Rightarrow> (string \<rightharpoonup> int) \<Rightarrow> (string \<rightharpoonup> int)" where
  "pickLoop [] gdpMap = gdpMap"
| "pickLoop (entry # entries) gdpMap =
     (case (country_id entry, entry_value entry) of
        (Some cid, Some v) \<Rightarrow>
          if cid = [] then pickLoop entries gdpMap
          else if gdpMap cid = None then pickLoop entries (gdpMap(cid \<mapsto> v))
          else pickLoop entries gdpMap
      | _ \<Rightarrow> pickLoop entries gdpMap)"

definition pickLatestGdp :: "WorldBankEntry list \<Rightarrow> (string \<rightharpoonup> int)" where
  "pickLatestGdp entries = pickLoop entries Map.empty"

text \<open>The filter predicate \<^verbatim>\<open>country.cca2 && country.cca3\<close>.\<close>

definition hasCodes :: "RestCountry \<Rightarrow> bool" where
  "hasCodes country = (truthy (rc_cca2 country) \<and> truthy (rc_cca3 country))"

text \<open>
  The value of a code the filter has found present. The filter runs before the map, so
  the \<open>None\<close> branch is never taken inside \<open>getCountries\<close>.
\<close>

fun codeString :: "string option \<Rightarrow> string" where
  "codeString None = []"
| "codeString (Some s) = s"

text \<open>\<^verbatim>\<open>country.capital?.[0] ?? "\<emdash>"\<close>\<close>

fun firstCapital :: "string list option \<Rightarrow> string" where
  "firstCapital None = emDash"
| "firstCapital (Some []) = emDash"
| "firstCapital (Some (c # cs)) = c"

text \<open>The body of the \<^verbatim>\<open>map\<close> callback.\<close>

definition toRecord :: "(string \<rightharpoonup> int) \<Rightarrow> RestCountry \<Rightarrow> CountryRecord" where
  "toRecord gdpMap country =
     \<lparr> name = rc_name country,
       cca2 = codeString (rc_cca2 country),
       cca3 = codeString (rc_cca3 country),
       capital = firstCapital (rc_capital country),
       region = (if rc_region country = [] then ''Other'' else rc_region country),
       population = rc_population country,
       currencies = buildCurrencyLabel (rc_currencies country),
       gdp = gdpMap (codeString (rc_cca2 country)) \<rparr>"

text \<open>\<^verbatim>\<open>Array.isArray(gdpJson[1]) ? gdpJson[1] : []\<close>\<close>

fun gdpEntries :: "GdpSecond \<Rightarrow> WorldBankEntry list" where
  "gdpEntries (EntryArray es) = es"
| "gdpEntries NotArray = []"

definition byPopulationDesc :: "CountryRecord \<Rightarrow> CountryRecord \<Rightarrow> int" where
  "byPopulationDesc a b = population b - population a"

definition getCountries ::
  "RestCountry list Response \<Rightarrow> GdpSecond Response \<Rightarrow> error + CountryRecord list" where
  "getCountries restResponse gdpResponse =
     (if \<not> ok restResponse then Inl (Error ''Failed to load country metadata.'')
      else if \<not> ok gdpResponse then Inl (Error ''Failed to load GDP data.'')
      else
        let restData = json restResponse;
            gdpMap = pickLatestGdp (gdpEntries (json gdpResponse))
        in Inr (jsSort byPopulationDesc (map (toRecord gdpMap) (filter hasCodes restData))))"

section \<open>Dashboard derivations\<close>

subsection \<open>Types\<close>

datatype SortKey = Name | Population | Gdp | Capital | Currencies

datatype SortDirection = Desc | Asc

text \<open>The state hooks of \<^verbatim>\<open>CountryDashboard\<close> that the derivations read or write.\<close>

record DashboardState =
  selectedCountry :: "CountryRecord option"
  searchTerm :: string
  regionFilter :: string
  sortKey :: SortKey
  sortDirection :: SortDirection

text \<open>What \<^verbatim>\<open>a[sortKey]\<close> can evaluate to.\<close>

datatype FieldValue = NumberVal int | StringVal string | NullVal

subsection \<open>String primitives\<close>

text \<open>
  \<^verbatim>\<open>toLowerCase\<close> and \<^verbatim>\<open>trim\<close> on ASCII text, and \<^verbatim>\<open>includes\<close>. Outside ASCII the
  platform functions also fold letters and strip spaces that these leave alone.
\<close>

definition lowerChar :: "char \<Rightarrow> char" where
  "lowerChar c =
     (if CHR ''A'' \<le> c \<and> c \<le> CHR ''Z'' then char_of (of_char c + (32::nat)) else c)"

definition toLowerCase :: "string \<Rightarrow> string" where
  "toLowerCase s = map lowerChar s"

definition isWhiteSpace :: "char \<Rightarrow> bool" where
  "isWhiteSpace c = (c \<in> set [CHR 0x20, CHR 0x09, CHR 0x0A, CHR 0x0B, CHR 0x0C, CHR 0x0D])"

definition trim :: "string \<Rightarrow> string" where
  "trim s = rev (dropWhile isWhiteSpace (rev (dropWhile isWhiteSpace s)))"

fun startsWith :: "string \<Rightarrow> string \<Rightarrow> bool" where
  "startsWith s [] = True"
| "startsWith [] (c # cs) = False"
| "startsWith (d # ds) (c # cs) = (d = c \<and> startsWith ds cs)"

fun includesStr :: "string \<Rightarrow> string \<Rightarrow> bool" where
  "includesStr [] t = (t = [])"
| "includesStr (c # cs) t = (startsWith (c # cs) t \<or> includesStr cs t)"

text \<open>
  \<^verbatim>\<open>String(x)\<close> of a field value. A number prints in decimal (the form JavaScript uses
  for integers of magnitude below \<open>10^21\<close>), \<^verbatim>\<open>null\<close> prints as \<^verbatim>\<open>"null"\<close>.
\<close>

definition digitChar :: "nat \<Rightarrow> char" where
  "digitChar d = ''0123456789'' ! d"

fun showNat :: "nat \<Rightarrow> string" where
  "showNat n = (if n < 10 then [digitChar n] else showNat (n div 10) @ [digitChar (n mod 10)])"

definition showInt :: "int \<Rightarrow> string" where
  "showInt i = (if i < 0 then CHR ''-'' # showNat (nat (- i)) else showNat (nat i))"

fun toStringJs :: "FieldValue \<Rightarrow> string" where
  "toStringJs (NumberVal n) = showInt n"
| "toStringJs (StringVal s) = s"
| "toStringJs NullVal = ''null''"

subsection \<open>Derivations\<close>

text \<open>\<^verbatim>\<open>regions\<close>: the options of the region select.\<close>

definition regions :: "CountryRecord list \<Rightarrow> string list" where
  "regions countries =
     (let regionSet = newSet (map region countries)
      in ''All'' # jsSort defaultCompare regionSet)"

text \<open>The property read \<^verbatim>\<open>a[sortKey]\<close>.\<close>

fun fieldOf :: "SortKey \<Rightarrow> CountryRecord \<Rightarrow> FieldValue" where
  "fieldOf Name a = StringVal (name a)"
| "fieldOf Population a = NumberVal (population a)"
| "fieldOf Gdp a = (case gdp a of None \<Rightarrow> NullVal | Some g \<Rightarrow> NumberVal g)"
| "fieldOf Capital a = StringVal (capital a)"
| "fieldOf Currencies a = StringVal (currencies a)"

text \<open>
  The comparator of the visible list. \<open>localeCompare\<close> stands for
  \<^verbatim>\<open>String.prototype.localeCompare\<close>, whose order is that of the host's locale; it is a
  parameter of the model.
\<close>

definition compareRecords ::
  "(string \<Rightarrow> string \<Rightarrow> int) \<Rightarrow> SortDirection \<Rightarrow> SortKey \<Rightarrow> CountryRecord \<Rightarrow> CountryRecord \<Rightarrow> int" where
  "compareRecords localeCompare dir key a b =
     (let multiplier = (if dir = Asc then 1 else - 1);
          aValue = fieldOf key a;
          bValue = fieldOf key b
      in case (aValue, bValue) of
           (NumberVal x, NumberVal y) \<Rightarrow> (x - y) * multiplier
         | _ \<Rightarrow> localeCompare (toStringJs aValue) (toStringJs bValue) * multiplier)"

definition matchesFilters :: "DashboardState \<Rightarrow> CountryRecord \<Rightarrow> bool" where
  "matchesFilters st country =
     (let matchesSearch = includesStr (toLowerCase (name country)) (toLowerCase (trim (searchTerm st)));
          matchesRegion = (regionFilter st = ''All'' \<or> region country = regionFilter st)
      in matchesSearch \<and> matchesRegion)"

definition filteredCountries ::
  "(string \<Rightarrow> string \<Rightarrow> int) \<Rightarrow> DashboardState \<Rightarrow> CountryRecord list \<Rightarrow> CountryRecord list" where
  "filteredCountries localeCompare st countries =
     jsSort (compareRecords localeCompare (sortDirection st) (sortKey st))
       (filter (matchesFilters st) countries)"

text \<open>\<^verbatim>\<open>handleSort\<close>, with the two state setters applied to the state record.\<close>

definition handleSort :: "SortKey \<Rightarrow> DashboardState \<Rightarrow> DashboardState" where
  "handleSort key st =
     (if sortKey st = key
      then st\<lparr>sortDirection := (if sortDirection st = Asc then Desc else Asc)\<rparr>
      else st\<lparr>sortKey := key,
              sortDirection := (if key = Name \<or> key = Capital then Asc else Desc)\<rparr>)"

section \<open>Auxiliary notions and example inputs\<close>

text \<open>
  A comparator orders its domain when any two elements are comparable in at least one
  direction and the relation "not after" is transitive. For such a comparator every
  conforming \<^verbatim>\<open>sort\<close> returns the same array as \<open>jsSort\<close>.
\<close>

definition comparatorOrder :: "('a \<Rightarrow> 'a \<Rightarrow> int) \<Rightarrow> bool" where
  "comparatorOrder cmp =
     ((\<forall>x y. cmp x y \<le> 0 \<or> cmp y x \<le> 0) \<and>
      (\<forall>x y z. cmp x y \<le> 0 \<longrightarrow> cmp y z \<le> 0 \<longrightarrow> cmp x z \<le> 0))"

text \<open>The two metadata entries of the scenario in the specification's test section.\<close>

definition alpha :: RestCountry where
  "alpha = \<lparr> rc_name = ''Alpha'', rc_cca2 = Some ''AA'', rc_cca3 = Some ''AAA'',
     rc_capital = None, rc_region = ''X'', rc_population = 10, rc_currencies = None \<rparr>"

definition beta :: RestCountry where
  "beta = \<lparr> rc_name = ''Beta'', rc_cca2 = Some ''BB'', rc_cca3 = Some ''BBB'',
     rc_capital = Some [''Bcity''], rc_region = ''X'', rc_population = 20,
     rc_currencies = Some [(''BBD'', ''Beta dollar''), (''BBE'', ''Beta euro'')] \<rparr>"

text \<open>The GDP entries of the specification's first-wins example.\<close>

definition usEntries :: "WorldBankEntry list" where
  "usEntries = [\<lparr>country_id = Some ''US'', entry_value = Some 100\<rparr>,
                \<lparr>country_id = Some ''US'', entry_value = Some 90\<rparr>]"

text \<open>A metadata entry without a two-letter code.\<close>

definition codeless :: RestCountry where
  "codeless = \<lparr> rc_name = ''Nowhere'', rc_cca2 = None, rc_cca3 = Some ''NWH'',
     rc_capital = None, rc_region = ''X'', rc_population = 30, rc_currencies = None \<rparr>"

text \<open>A second entry with the three-letter code of \<open>alpha\<close>.\<close>

definition alphaTwin :: RestCountry where
  "alphaTwin = \<lparr> rc_name = ''Alpha again'', rc_cca2 = Some ''AB'', rc_cca3 = Some ''AAA'',
     rc_capital = None, rc_region = ''X'', rc_population = 5, rc_currencies = None \<rparr>"

text \<open>An entry whose currencies object is present and empty, \<^verbatim>\<open>currencies: {}\<close>.\<close>

definition noCurrency :: RestCountry where
  "noCurrency = \<lparr> rc_name = ''Antarctica'', rc_cca2 = Some ''AQ'', rc_cca3 = Some ''ATA'',
     rc_capital = Some [], rc_region = [], rc_population = 0, rc_currencies = Some [] \<rparr>"

text \<open>The state \<^verbatim>\<open>CountryDashboard\<close> starts in.\<close>

definition initialState :: DashboardState where
  "initialState = \<lparr> selectedCountry = None, searchTerm = [], regionFilter = ''All'',
     sortKey = Population, sortDirection = Desc \<rparr>"

text \<open>Records for the derivations; the first has the region \<^verbatim>\<open>"All"\<close>.\<close>

definition allRegion :: CountryRecord where
  "allRegion = \<lparr> name = ''Alpha'', cca2 = ''AA'', cca3 = ''AAA'', capital = ''Acity'',
     region = ''All'', population = 10, currencies = ''Alpha dollar'', gdp = None \<rparr>"

definition europeRecord :: CountryRecord where
  "europeRecord = \<lparr> name = ''Beta'', cca2 = ''BB'', cca3 = ''BBB'', capital = ''Bcity'',
     region = ''Europe'', population = 20, currencies = ''Beta euro'', gdp = Some 5 \<rparr>"

definition asiaRecord :: CountryRecord where
  "asiaRecord = \<lparr> name = ''Gamma'', cca2 = ''GG'', cca3 = ''GGG'', capital = ''Gcity'',
     region = ''Asia'', population = 30, currencies = ''Gamma yen'', gdp = None \<rparr>"

text \<open>
  The comparator as the specification words it: the numeric fields \<open>population\<close> and
  \<open>gdp\<close> compared arithmetically, the string fields by \<open>localeCompare\<close>, the result
  multiplied by \<open>+1\<close> for ascending and \<open>-1\<close> for descending. Arithmetic reads a null
  \<open>gdp\<close> as \<open>0\<close>, as JavaScript's subtraction does.
\<close>

fun toNumber :: "int option \<Rightarrow> int" where
  "toNumber None = 0"
| "toNumber (Some n) = n"

definition compareRecords_spec ::
  "(string \<Rightarrow> string \<Rightarrow> int) \<Rightarrow> SortDirection \<Rightarrow> SortKey \<Rightarrow> CountryRecord \<Rightarrow> CountryRecord \<Rightarrow> int" where
  "compareRecords_spec localeCompare dir key a b =
     (let multiplier = (if dir = Asc then 1 else - 1)
      in case key of
           Population \<Rightarrow> (population a - population b) * multiplier
         | Gdp \<Rightarrow> (toNumber (gdp a) - toNumber (gdp b)) * multiplier
         | Name \<Rightarrow> localeCompare (name a) (name b) * multiplier
         | Capital \<Rightarrow> localeCompare (capital a) (capital b) * multiplier
         | Currencies \<Rightarrow> localeCompare (currencies a) (currencies b) * multiplier)"

section \<open>Sorting\<close>

lemma mset_insertBy: "mset (insertBy cmp x ys) = add_mset x (mset ys)"
  by (induction ys) auto

lemma mset_jsSort: "mset (jsSort cmp xs) = mset xs"
  by (induction xs) (auto simp: mset_insertBy)

lemma set_jsSort: "set (jsSort cmp xs) = set xs"
  using mset_jsSort [of cmp xs] by (metis set_mset_mset)

lemma length_jsSort: "length (jsSort cmp xs) = length xs"
  using mset_jsSort [of cmp xs] by (metis size_mset)

lemma distinct_map_jsSort: "distinct (map f (jsSort cmp xs)) = distinct (map f xs)"
proof -
  have "mset (map f (jsSort cmp xs)) = mset (map f xs)"
    by (simp add: mset_jsSort)
  then show ?thesis
    by (rule mset_eq_imp_distinct_iff)
qed

lemma sorted_wrt_insertBy:
  assumes "comparatorOrder cmp" and "sorted_wrt (\<lambda>a b. cmp a b \<le> 0) ys"
  shows "sorted_wrt (\<lambda>a b. cmp a b \<le> 0) (insertBy cmp x ys)"
  using assms(2)
proof (induction ys)
  case Nil
  then show ?case by simp
next
  case (Cons y ys)
  show ?case
  proof (cases "cmp x y \<le> 0")
    case True
    have "\<forall>z\<in>set ys. cmp x z \<le> 0"
      using True Cons.prems assms(1) unfolding comparatorOrder_def by (meson sorted_wrt.simps(2))
    with True Cons.prems show ?thesis by simp
  next
    case False
    then have yx: "cmp y x \<le> 0"
      using assms(1) unfolding comparatorOrder_def by blast
    have "set (insertBy cmp x ys) = insert x (set ys)"
      using mset_insertBy [of cmp x ys] by (metis set_mset_add_mset_insert set_mset_mset)
    with False yx Cons show ?thesis by auto
  qed
qed

lemma sorted_wrt_jsSort:
  "comparatorOrder cmp \<Longrightarrow> sorted_wrt (\<lambda>a b. cmp a b \<le> 0) (jsSort cmp xs)"
  by (induction xs) (auto intro: sorted_wrt_insertBy)

section \<open>The aggregator's output\<close>

lemma comparatorOrder_byPopulationDesc: "comparatorOrder byPopulationDesc"
  unfolding comparatorOrder_def byPopulationDesc_def by auto

lemma getCountries_alpha_beta:
  "getCountries \<lparr>ok = True, json = [alpha, beta]\<rparr> \<lparr>ok = True, json = NotArray\<rparr>
     = Inr [toRecord Map.empty beta, toRecord Map.empty alpha]"
  by (simp add: getCountries_def pickLatestGdp_def hasCodes_def alpha_def beta_def
      toRecord_def byPopulationDesc_def)

text \<open>
  Claim C1. Whatever the metadata entries are, the list \<open>getCountries\<close> returns is in
  descending order of population: each record's population is at least that of the
  record after it.
\<close>

theorem getCountries_sorted_desc:
  assumes "getCountries restResponse gdpResponse = Inr records"
    and "Suc i < length records"
  shows "population (records ! Suc i) \<le> population (records ! i)"
proof -
  obtain xs where recs: "records = jsSort byPopulationDesc xs"
    using assms(1) unfolding getCountries_def by (auto simp: Let_def split: if_splits)
  have "sorted_wrt (\<lambda>a b. byPopulationDesc a b \<le> 0) records"
    unfolding recs by (rule sorted_wrt_jsSort [OF comparatorOrder_byPopulationDesc])
  then have "byPopulationDesc (records ! i) (records ! Suc i) \<le> 0"
    using assms(2) sorted_wrt_nth_less [of _ records i "Suc i"] by blast
  then show ?thesis by (simp add: byPopulationDesc_def)
qed

theorem getCountries_sorted_desc_witness:
  "getCountries \<lparr>ok = True, json = [alpha, beta]\<rparr> \<lparr>ok = True, json = NotArray\<rparr>
     = Inr [toRecord Map.empty beta, toRecord Map.empty alpha]
   \<and> Suc 0 < length [toRecord Map.empty beta, toRecord Map.empty alpha]
   \<and> population ([toRecord Map.empty beta, toRecord Map.empty alpha] ! Suc 0)
       \<le> population ([toRecord Map.empty beta, toRecord Map.empty alpha] ! 0)"
  using getCountries_sorted_desc [OF getCountries_alpha_beta, of 0] getCountries_alpha_beta
  by simp

section \<open>The GDP map\<close>

lemma pickLoop_lookup:
  "c \<noteq> [] \<Longrightarrow> pickLoop entries gdpMap c =
     (case gdpMap c of
        Some v \<Rightarrow> Some v
      | None \<Rightarrow> (case find (\<lambda>e. country_id e = Some c \<and> entry_value e \<noteq> None) entries of
                   None \<Rightarrow> None
                 | Some e \<Rightarrow> entry_value e))"
proof (induction entries arbitrary: gdpMap)
  case Nil
  then show ?case by (simp split: option.splits)
next
  case (Cons entry entries)
  then show ?case
    by (auto split: option.splits)
qed

text \<open>An entry whose code is the empty string is skipped like one without a code.\<close>

lemma pickLoop_empty_code: "gdpMap [] = None \<Longrightarrow> pickLoop entries gdpMap [] = None"
  by (induction entries arbitrary: gdpMap) (auto split: option.splits)

lemma pickLatestGdp_empty_code: "pickLatestGdp entries [] = None"
  by (simp add: pickLatestGdp_def pickLoop_empty_code)

text \<open>The entries after the first valued one for a code have no influence.\<close>

lemma pickLatestGdp_later_ignored:
  assumes "c \<noteq> []" "country_id e = Some c" "entry_value e = Some v"
    and "\<forall>p\<in>set pre. \<not> (country_id p = Some c \<and> entry_value p \<noteq> None)"
  shows "pickLatestGdp (pre @ e # post) c = Some v"
proof -
  have "find (\<lambda>e. country_id e = Some c \<and> entry_value e \<noteq> None) (pre @ e # post) = Some e"
    using assms(2-4) by (induction pre) auto
  then show ?thesis using assms(1,3) by (simp add: pickLatestGdp_def pickLoop_lookup)
qed

text \<open>
  Claim C2. For every list of indicator entries and every country code, the map built by
  \<open>pickLatestGdp\<close> holds for that code the value of the first entry, in source order,
  that carries the code and a non-null value (and nothing when there is no such entry);
  entries after it do not matter. On the entries US/100, US/90 the map gives 100 for US.
  A country code is a non-empty string: an empty id is treated as missing by the source.
\<close>

theorem pickLatestGdp_first_wins:
  "c \<noteq> [] \<Longrightarrow> pickLatestGdp entries c =
     (case find (\<lambda>e. country_id e = Some c \<and> entry_value e \<noteq> None) entries of
        None \<Rightarrow> None
      | Some e \<Rightarrow> entry_value e)"
  by (simp add: pickLatestGdp_def pickLoop_lookup)

theorem pickLatestGdp_first_wins_witness:
  "''US'' \<noteq> [] \<and> pickLatestGdp usEntries ''US'' = Some 100"
  using pickLatestGdp_first_wins [of "''US''" usEntries] by (simp add: usEntries_def)

section \<open>Status handling and filtering of the aggregator\<close>

text \<open>
  Claim C3. \<open>getCountries\<close> fails with an error as soon as one of the two responses has a
  non-success status, and then yields no record list at all; when both are successful it
  returns a list that holds the record of every accepted metadata entry.
\<close>

theorem getCountries_status:
  "(\<not> ok restResponse \<longrightarrow>
      getCountries restResponse gdpResponse = Inl (Error ''Failed to load country metadata.''))
   \<and> (ok restResponse \<and> \<not> ok gdpResponse \<longrightarrow>
      getCountries restResponse gdpResponse = Inl (Error ''Failed to load GDP data.''))
   \<and> (ok restResponse \<and> ok gdpResponse \<longrightarrow>
      (\<exists>records. getCountries restResponse gdpResponse = Inr records
         \<and> mset records =
             mset (map (toRecord (pickLatestGdp (gdpEntries (json gdpResponse))))
                    (filter hasCodes (json restResponse)))))"
  by (simp add: getCountries_def mset_jsSort)

theorem getCountries_status_witness:
  "getCountries \<lparr>ok = False, json = [alpha, beta]\<rparr> \<lparr>ok = True, json = NotArray\<rparr>
      = Inl (Error ''Failed to load country metadata.'')
   \<and> getCountries \<lparr>ok = True, json = [alpha, beta]\<rparr> \<lparr>ok = False, json = NotArray\<rparr>
      = Inl (Error ''Failed to load GDP data.'')
   \<and> (\<exists>records. getCountries \<lparr>ok = True, json = [alpha, beta]\<rparr> \<lparr>ok = True, json = NotArray\<rparr>
         = Inr records
       \<and> mset records = {#toRecord Map.empty alpha, toRecord Map.empty beta#})"
proof -
  have "hasCodes alpha" "hasCodes beta"
    by (simp_all add: hasCodes_def alpha_def beta_def)
  then show ?thesis
    using getCountries_status [of "\<lparr>ok = False, json = [alpha, beta]\<rparr>" "\<lparr>ok = True, json = NotArray\<rparr>"]
      getCountries_status [of "\<lparr>ok = True, json = [alpha, beta]\<rparr>" "\<lparr>ok = False, json = NotArray\<rparr>"]
      getCountries_status [of "\<lparr>ok = True, json = [alpha, beta]\<rparr>" "\<lparr>ok = True, json = NotArray\<rparr>"]
    by (simp add: pickLatestGdp_def)
qed

lemma toRecord_codes:
  "hasCodes country \<Longrightarrow> cca2 (toRecord gdpMap country) \<noteq> [] \<and> cca3 (toRecord gdpMap country) \<noteq> []"
  by (cases "rc_cca2 country"; cases "rc_cca3 country") (auto simp: hasCodes_def toRecord_def)

lemma toRecord_no_codes:
  "\<not> hasCodes country \<Longrightarrow> cca2 (toRecord gdpMap country) = [] \<or> cca3 (toRecord gdpMap country) = []"
  by (cases "rc_cca2 country"; cases "rc_cca3 country") (auto simp: hasCodes_def toRecord_def)

text \<open>
  Claim C9. Every record that \<open>getCountries\<close> returns is the record of an input entry
  that has both codes, and the record of an entry that lacks \<^verbatim>\<open>cca2\<close> or \<^verbatim>\<open>cca3\<close>
  is never in the output.
\<close>

theorem getCountries_only_coded:
  assumes "getCountries restResponse gdpResponse = Inr records"
  shows "(\<forall>r\<in>set records. \<exists>country\<in>set (json restResponse).
            truthy (rc_cca2 country) \<and> truthy (rc_cca3 country)
            \<and> r = toRecord (pickLatestGdp (gdpEntries (json gdpResponse))) country)
       \<and> (\<forall>country gdpMap. \<not> (truthy (rc_cca2 country) \<and> truthy (rc_cca3 country))
            \<longrightarrow> toRecord gdpMap country \<notin> set records)"
proof -
  let ?gm = "pickLatestGdp (gdpEntries (json gdpResponse))"
  have recs: "set records = toRecord ?gm ` {c \<in> set (json restResponse). hasCodes c}"
    using assms unfolding getCountries_def
    by (auto simp: Let_def set_jsSort split: if_splits)
  have a: "\<forall>r\<in>set records. \<exists>country\<in>set (json restResponse).
            truthy (rc_cca2 country) \<and> truthy (rc_cca3 country) \<and> r = toRecord ?gm country"
    unfolding recs by (auto simp: hasCodes_def)
  have b: "toRecord gdpMap country \<notin> set records"
    if "\<not> (truthy (rc_cca2 country) \<and> truthy (rc_cca3 country))" for country gdpMap
  proof
    assume "toRecord gdpMap country \<in> set records"
    then obtain c where c: "hasCodes c" "toRecord gdpMap country = toRecord ?gm c"
      unfolding recs by auto
    from that have "\<not> hasCodes country" by (simp add: hasCodes_def)
    then have "cca2 (toRecord gdpMap country) = [] \<or> cca3 (toRecord gdpMap country) = []"
      by (rule toRecord_no_codes)
    moreover have "cca2 (toRecord ?gm c) \<noteq> [] \<and> cca3 (toRecord ?gm c) \<noteq> []"
      using c(1) by (rule toRecord_codes)
    ultimately show False using c(2) by simp
  qed
  from a b show ?thesis by blast
qed

lemma getCountries_codeless:
  "getCountries \<lparr>ok = True, json = [codeless, alpha]\<rparr> \<lparr>ok = True, json = NotArray\<rparr>
     = Inr [toRecord Map.empty alpha]"
  by (simp add: getCountries_def pickLatestGdp_def hasCodes_def alpha_def codeless_def)

theorem getCountries_only_coded_witness:
  "getCountries \<lparr>ok = True, json = [codeless, alpha]\<rparr> \<lparr>ok = True, json = NotArray\<rparr>
     = Inr [toRecord Map.empty alpha]
   \<and> (\<exists>country\<in>set [codeless, alpha]. truthy (rc_cca2 country) \<and> truthy (rc_cca3 country)
         \<and> toRecord Map.empty alpha = toRecord Map.empty country)
   \<and> \<not> (truthy (rc_cca2 codeless) \<and> truthy (rc_cca3 codeless))
   \<and> toRecord Map.empty codeless \<notin> set [toRecord Map.empty alpha]"
proof -
  note t = getCountries_only_coded [OF getCountries_codeless]
  have missing: "\<not> (truthy (rc_cca2 codeless) \<and> truthy (rc_cca3 codeless))"
    by (simp add: codeless_def)
  have "toRecord Map.empty codeless \<notin> set [toRecord Map.empty alpha]"
    using t [THEN conjunct2, rule_format, of codeless Map.empty] missing by blast
  moreover have "\<exists>country\<in>set [codeless, alpha]. truthy (rc_cca2 country) \<and> truthy (rc_cca3 country)
         \<and> toRecord Map.empty alpha = toRecord Map.empty country"
    using t [THEN conjunct1] by (simp add: pickLatestGdp_def)
  ultimately show ?thesis using getCountries_codeless missing by blast
qed

text \<open>
  Claim C10. When both responses are successful and the second element of the GDP body
  is not an array, \<open>getCountries\<close> does not fail: it returns the record of every accepted
  entry, each with a null \<open>gdp\<close>.
\<close>

theorem getCountries_gdp_not_array:
  assumes "ok restResponse" and "ok gdpResponse" and "json gdpResponse = NotArray"
  shows "\<exists>records. getCountries restResponse gdpResponse = Inr records
           \<and> mset records = mset (map (toRecord Map.empty) (filter hasCodes (json restResponse)))
           \<and> (\<forall>r\<in>set records. gdp r = None)"
proof -
  have gm: "pickLatestGdp (gdpEntries (json gdpResponse)) = Map.empty"
    using assms(3) by (simp add: pickLatestGdp_def)
  let ?records = "jsSort byPopulationDesc (map (toRecord Map.empty) (filter hasCodes (json restResponse)))"
  have "getCountries restResponse gdpResponse = Inr ?records"
    using assms(1,2) gm by (simp add: getCountries_def)
  moreover have "mset ?records = mset (map (toRecord Map.empty) (filter hasCodes (json restResponse)))"
    by (rule mset_jsSort)
  moreover have "\<forall>r\<in>set ?records. gdp r = None"
    by (auto simp: set_jsSort toRecord_def)
  ultimately show ?thesis by blast
qed

theorem getCountries_gdp_not_array_witness:
  "ok \<lparr>ok = True, json = [alpha, beta]\<rparr> \<and> ok \<lparr>ok = True, json = NotArray\<rparr>
   \<and> json \<lparr>ok = True, json = NotArray\<rparr> = NotArray
   \<and> (\<exists>records. getCountries \<lparr>ok = True, json = [alpha, beta]\<rparr> \<lparr>ok = True, json = NotArray\<rparr>
          = Inr records
        \<and> mset records = {#toRecord Map.empty alpha, toRecord Map.empty beta#}
        \<and> (\<forall>r\<in>set records. gdp r = None))"
proof -
  have "hasCodes alpha" "hasCodes beta"
    by (simp_all add: hasCodes_def alpha_def beta_def)
  then show ?thesis
    using getCountries_gdp_not_array
      [of "\<lparr>ok = True, json = [alpha, beta]\<rparr>" "\<lparr>ok = True, json = NotArray\<rparr>"]
    by simp
qed

section \<open>Uniqueness of the three-letter code\<close>

text \<open>
  \<open>getCountries\<close> has no step that removes duplicates: two accepted entries with the
  same three-letter code give two records with that code.
\<close>

theorem getCountries_duplicate_cca3:
  "getCountries \<lparr>ok = True, json = [alpha, alphaTwin]\<rparr> \<lparr>ok = True, json = NotArray\<rparr>
     = Inr [toRecord Map.empty alpha, toRecord Map.empty alphaTwin]
   \<and> toRecord Map.empty alpha \<noteq> toRecord Map.empty alphaTwin
   \<and> cca3 (toRecord Map.empty alpha) = cca3 (toRecord Map.empty alphaTwin)
   \<and> \<not> distinct (map cca3 [toRecord Map.empty alpha, toRecord Map.empty alphaTwin])"
  by (simp add: getCountries_def pickLatestGdp_def hasCodes_def alpha_def alphaTwin_def
      toRecord_def byPopulationDesc_def)

lemma codeString_inj_on_truthy:
  "truthy a \<Longrightarrow> truthy b \<Longrightarrow> codeString a = codeString b \<Longrightarrow> a = b"
  by (cases a; cases b) auto

lemma distinct_cca3_toRecord:
  "distinct (map cca3 (map (toRecord gdpMap) (filter hasCodes countries)))
     = distinct (map rc_cca3 (filter hasCodes countries))"
proof -
  have m: "map cca3 (map (toRecord gdpMap) (filter hasCodes countries))
        = map codeString (map rc_cca3 (filter hasCodes countries))"
    by (simp add: toRecord_def comp_def)
  have "inj_on codeString (set (map rc_cca3 (filter hasCodes countries)))"
    by (rule inj_onI) (auto simp: hasCodes_def intro: codeString_inj_on_truthy)
  then show ?thesis
    unfolding m by (simp only: distinct_map) simp
qed

text \<open>
  Claim C4, amended. The records that \<open>getCountries\<close> returns have pairwise different
  \<open>cca3\<close> values exactly when the accepted metadata entries (those with both codes) have
  pairwise different \<open>cca3\<close> values: uniqueness is inherited from the input.
\<close>

theorem getCountries_cca3_unique:
  assumes "getCountries restResponse gdpResponse = Inr records"
  shows "distinct (map cca3 records)
           = distinct (map rc_cca3 (filter hasCodes (json restResponse)))"
proof -
  have "records = jsSort byPopulationDesc
          (map (toRecord (pickLatestGdp (gdpEntries (json gdpResponse))))
            (filter hasCodes (json restResponse)))"
    using assms unfolding getCountries_def by (auto simp: Let_def split: if_splits)
  then show ?thesis
    by (simp only: distinct_map_jsSort distinct_cca3_toRecord)
qed

theorem getCountries_cca3_unique_witness:
  "getCountries \<lparr>ok = True, json = [alpha, beta]\<rparr> \<lparr>ok = True, json = NotArray\<rparr>
     = Inr [toRecord Map.empty beta, toRecord Map.empty alpha]
   \<and> distinct (map rc_cca3 (filter hasCodes [alpha, beta]))
   \<and> distinct (map cca3 [toRecord Map.empty beta, toRecord Map.empty alpha])"
proof -
  have d: "distinct (map rc_cca3 (filter hasCodes [alpha, beta]))"
    by (simp add: hasCodes_def alpha_def beta_def)
  then show ?thesis
    using getCountries_cca3_unique [OF getCountries_alpha_beta] getCountries_alpha_beta
    by simp
qed

section \<open>The currency label\<close>

lemma buildCurrencyLabel_absent:
  "rc_currencies country = None \<Longrightarrow> currencies (toRecord gdpMap country) = emDash"
  by (simp add: toRecord_def)

lemma buildCurrencyLabel_present:
  "rc_currencies country = Some cs \<Longrightarrow>
   currencies (toRecord gdpMap country) = join '', '' (map snd cs)"
  by (simp add: toRecord_def)

lemma currencies_beta: "currencies (toRecord gdpMap beta) = ''Beta dollar, Beta euro''"
  by (simp add: toRecord_def beta_def)

text \<open>
  Claim C6. The \<open>currencies\<close> field is the currency names joined with a comma and a
  space, and the placeholder when the entry has no currencies object (the two lemmas
  above). For a currencies object that is present and empty the source does not give the
  placeholder: the accepted entry \<open>noCurrency\<close> gets the empty string, while its empty
  capital list and empty region do get their fallbacks.
\<close>

theorem buildCurrencyLabel_empty_set:
  "hasCodes noCurrency \<and> rc_currencies noCurrency = Some []
   \<and> currencies (toRecord Map.empty noCurrency) = []
   \<and> currencies (toRecord Map.empty noCurrency) \<noteq> emDash
   \<and> capital (toRecord Map.empty noCurrency) = emDash
   \<and> region (toRecord Map.empty noCurrency) = ''Other''"
  by (simp add: toRecord_def noCurrency_def emDash_def hasCodes_def)

section \<open>Toggling the sort\<close>

text \<open>
  Claim C7. \<open>handleSort\<close> with the current sort key changes the direction and nothing
  else, and a second call with that key gives the original state back; with another key
  it makes that key the sort key and sets the direction to ascending for \<open>name\<close> and
  \<open>capital\<close>, to descending for \<open>population\<close>, \<open>gdp\<close> and \<open>currencies\<close>.
\<close>

theorem handleSort_toggle:
  "(sortKey st = key \<longrightarrow>
      sortKey (handleSort key st) = sortKey st
      \<and> sortDirection (handleSort key st) \<noteq> sortDirection st
      \<and> selectedCountry (handleSort key st) = selectedCountry st
      \<and> searchTerm (handleSort key st) = searchTerm st
      \<and> regionFilter (handleSort key st) = regionFilter st
      \<and> handleSort key (handleSort key st) = st)
   \<and> (sortKey st \<noteq> key \<longrightarrow>
      sortKey (handleSort key st) = key
      \<and> (key = Name \<or> key = Capital \<longrightarrow> sortDirection (handleSort key st) = Asc)
      \<and> (key = Population \<or> key = Gdp \<or> key = Currencies \<longrightarrow>
            sortDirection (handleSort key st) = Desc)
      \<and> selectedCountry (handleSort key st) = selectedCountry st
      \<and> searchTerm (handleSort key st) = searchTerm st
      \<and> regionFilter (handleSort key st) = regionFilter st)"
  by (cases "sortDirection st"; cases key) (auto simp: handleSort_def)

theorem handleSort_toggle_witness:
  "sortKey initialState = Population
   \<and> sortDirection (handleSort Population initialState) = Asc
   \<and> handleSort Population (handleSort Population initialState) = initialState
   \<and> sortKey initialState \<noteq> Name
   \<and> sortKey (handleSort Name initialState) = Name
   \<and> sortDirection (handleSort Name initialState) = Asc
   \<and> sortKey initialState \<noteq> Gdp
   \<and> sortKey (handleSort Gdp initialState) = Gdp
   \<and> sortDirection (handleSort Gdp initialState) = Desc"
proof -
  have k: "sortKey initialState = Population" and d: "sortDirection initialState = Desc"
    by (simp_all add: initialState_def)
  have "sortDirection (handleSort Population initialState) \<noteq> Desc"
    using handleSort_toggle [of initialState Population] k d by simp
  then have "sortDirection (handleSort Population initialState) = Asc"
    by (cases "sortDirection (handleSort Population initialState)") simp_all
  then show ?thesis
    using handleSort_toggle [of initialState Population]
      handleSort_toggle [of initialState Name]
      handleSort_toggle [of initialState Gdp] k
    by simp
qed

section \<open>The region options\<close>

lemma set_foldl_setAdd: "set (foldl setAdd acc xs) = set acc \<union> set xs"
  by (induction xs arbitrary: acc) auto

lemma distinct_foldl_setAdd: "distinct acc \<Longrightarrow> distinct (foldl setAdd acc xs)"
  by (induction xs arbitrary: acc) auto

lemma set_newSet: "set (newSet xs) = set xs"
  by (simp add: newSet_def set_foldl_setAdd)

lemma distinct_newSet: "distinct (newSet xs)"
  by (simp add: newSet_def distinct_foldl_setAdd)

lemma defaultCompare_le: "(defaultCompare a b \<le> 0) = (a \<le> b)"
  by (auto simp: defaultCompare_def)

lemma comparatorOrder_defaultCompare: "comparatorOrder defaultCompare"
  unfolding comparatorOrder_def defaultCompare_le by auto

lemma sorted_jsSort_defaultCompare: "sorted (jsSort defaultCompare xs)"
  using sorted_wrt_jsSort [OF comparatorOrder_defaultCompare, of xs]
  by (simp add: defaultCompare_le)

text \<open>A record whose region is \<^verbatim>\<open>"All"\<close> makes the label appear twice.\<close>

theorem regions_duplicate_All:
  "regions [allRegion] = [''All'', ''All''] \<and> \<not> distinct (regions [allRegion])"
  by (simp add: regions_def newSet_def allRegion_def)

text \<open>
  Claim C8, amended. \<open>regions\<close> returns \<^verbatim>\<open>"All"\<close> first, followed by the region values
  present in the records, each once, in ascending code-unit order. The whole sequence is
  free of duplicates exactly when no record has the region \<^verbatim>\<open>"All"\<close>.
\<close>

theorem regions_shape:
  "regions countries = ''All'' # tl (regions countries)
   \<and> sorted (tl (regions countries))
   \<and> distinct (tl (regions countries))
   \<and> set (tl (regions countries)) = region ` set countries
   \<and> (distinct (regions countries) \<longleftrightarrow> ''All'' \<notin> region ` set countries)"
proof -
  let ?rest = "jsSort defaultCompare (newSet (map region countries))"
  have r: "regions countries = ''All'' # ?rest"
    by (simp add: regions_def)
  have s: "sorted ?rest"
    by (rule sorted_jsSort_defaultCompare)
  have d: "distinct ?rest"
    using distinct_map_jsSort [of "\<lambda>x. x" defaultCompare "newSet (map region countries)"]
    by (simp add: distinct_newSet)
  have e: "set ?rest = region ` set countries"
    by (simp add: set_jsSort set_newSet)
  show ?thesis
    unfolding r using s d e by simp
qed

lemma regions_example:
  "regions [europeRecord, asiaRecord, europeRecord] = [''All'', ''Asia'', ''Europe'']"
  by (simp add: regions_def newSet_def europeRecord_def asiaRecord_def defaultCompare_def)

theorem regions_shape_witness:
  "''All'' \<notin> region ` set [europeRecord, asiaRecord, europeRecord]
   \<and> regions [europeRecord, asiaRecord, europeRecord] = [''All'', ''Asia'', ''Europe'']
   \<and> distinct (regions [europeRecord, asiaRecord, europeRecord])"
proof -
  have "''All'' \<notin> region ` set [europeRecord, asiaRecord, europeRecord]"
    by (simp add: europeRecord_def asiaRecord_def)
  then show ?thesis
    using regions_shape [of "[europeRecord, asiaRecord, europeRecord]"] regions_example
    by blast
qed

section \<open>The comparator of the visible list\<close>

lemma set_filteredCountries:
  "set (filteredCountries localeCompare st countries) = {c \<in> set countries. matchesFilters st c}"
  by (simp add: filteredCountries_def set_jsSort)

text \<open>Sorted by population, the visible list is ordered in the chosen direction.\<close>

lemma comparatorOrder_population:
  "comparatorOrder (compareRecords localeCompare dir Population)"
  unfolding comparatorOrder_def compareRecords_def
  by (auto simp: mult_le_0_iff)

lemma filteredCountries_population_order:
  assumes "sortKey st = Population" and "Suc i < length (filteredCountries localeCompare st countries)"
  shows "if sortDirection st = Asc
         then population (filteredCountries localeCompare st countries ! i)
                \<le> population (filteredCountries localeCompare st countries ! Suc i)
         else population (filteredCountries localeCompare st countries ! Suc i)
                \<le> population (filteredCountries localeCompare st countries ! i)"
proof -
  let ?v = "filteredCountries localeCompare st countries"
  have "sorted_wrt (\<lambda>a b. compareRecords localeCompare (sortDirection st) Population a b \<le> 0) ?v"
    unfolding filteredCountries_def assms(1)
    by (rule sorted_wrt_jsSort [OF comparatorOrder_population])
  then have "compareRecords localeCompare (sortDirection st) Population (?v ! i) (?v ! Suc i) \<le> 0"
    using assms(2) sorted_wrt_nth_less [of _ ?v i "Suc i"] by blast
  then show ?thesis
    by (auto simp: compareRecords_def)
qed

text \<open>The search ignores case and surrounding blanks; the region filter is exact.\<close>

lemma filteredCountries_search:
  "filteredCountries defaultCompare (initialState\<lparr>searchTerm := '' EtA ''\<rparr>)
     [asiaRecord, europeRecord, allRegion] = [europeRecord]"
  by code_simp

lemma filteredCountries_region:
  "filteredCountries defaultCompare (initialState\<lparr>regionFilter := ''Asia''\<rparr>)
     [europeRecord, asiaRecord, allRegion] = [asiaRecord]"
  by code_simp

text \<open>
  When one of two \<open>gdp\<close> values is null the source compares the printed forms with
  \<open>localeCompare\<close>, not the numbers. Under code-unit order, which agrees with every
  locale's order on \<^verbatim>\<open>"null"\<close> against \<^verbatim>\<open>"5"\<close>, the record without GDP comes after
  the one with GDP 5 in ascending order, where arithmetic would put it before.
\<close>

theorem compareRecords_null_gdp:
  "compareRecords defaultCompare Asc Gdp asiaRecord europeRecord = 1
   \<and> compareRecords_spec defaultCompare Asc Gdp asiaRecord europeRecord = - 5
   \<and> compareRecords defaultCompare Asc Gdp asiaRecord europeRecord
       \<noteq> compareRecords_spec defaultCompare Asc Gdp asiaRecord europeRecord"
  by (simp add: compareRecords_def compareRecords_spec_def asiaRecord_def europeRecord_def
      defaultCompare_def showInt_def digitChar_def)

lemma compareRecords_spec_agrees:
  "key \<noteq> Gdp \<or> (gdp a \<noteq> None \<and> gdp b \<noteq> None) \<Longrightarrow>
   compareRecords localeCompare dir key a b = compareRecords_spec localeCompare dir key a b"
  by (cases key) (auto simp: compareRecords_def compareRecords_spec_def)

text \<open>
  Claim C5, amended. The visible list is the filtered list sorted with a comparator that
  multiplies by \<open>+1\<close> for ascending and \<open>-1\<close> for descending and that compares
  \<open>population\<close> arithmetically, \<open>gdp\<close> arithmetically when both values are non-null,
  and \<open>name\<close>, \<open>capital\<close> and \<open>currencies\<close> by \<open>localeCompare\<close>; when a \<open>gdp\<close>
  value is null, the two \<open>gdp\<close> values are compared by \<open>localeCompare\<close> of their
  printed forms, null printing as \<^verbatim>\<open>"null"\<close>.
\<close>

theorem filteredCountries_comparator:
  "filteredCountries localeCompare st countries
     = jsSort (compareRecords localeCompare (sortDirection st) (sortKey st))
         (filter (matchesFilters st) countries)
   \<and> compareRecords localeCompare dir Population a b
       = (population a - population b) * (if dir = Asc then 1 else - 1)
   \<and> (\<forall>x y. gdp a = Some x \<and> gdp b = Some y \<longrightarrow>
         compareRecords localeCompare dir Gdp a b = (x - y) * (if dir = Asc then 1 else - 1))
   \<and> (gdp a = None \<or> gdp b = None \<longrightarrow>
         compareRecords localeCompare dir Gdp a b
           = localeCompare (toStringJs (fieldOf Gdp a)) (toStringJs (fieldOf Gdp b))
               * (if dir = Asc then 1 else - 1))
   \<and> compareRecords localeCompare dir Name a b
       = localeCompare (name a) (name b) * (if dir = Asc then 1 else - 1)
   \<and> compareRecords localeCompare dir Capital a b
       = localeCompare (capital a) (capital b) * (if dir = Asc then 1 else - 1)
   \<and> compareRecords localeCompare dir Currencies a b
       = localeCompare (currencies a) (currencies b) * (if dir = Asc then 1 else - 1)"
  by (auto simp: filteredCountries_def compareRecords_def split: option.splits)

theorem filteredCountries_comparator_witness:
  "gdp europeRecord = Some 5 \<and> gdp (europeRecord\<lparr>gdp := Some 9\<rparr>) = Some 9
   \<and> compareRecords defaultCompare Desc Gdp europeRecord (europeRecord\<lparr>gdp := Some 9\<rparr>) = 4
   \<and> gdp asiaRecord = None
   \<and> compareRecords defaultCompare Desc Gdp asiaRecord europeRecord
       = defaultCompare ''null'' ''5'' * (- 1)"
proof -
  have g: "gdp europeRecord = Some 5" "gdp (europeRecord\<lparr>gdp := Some 9\<rparr>) = Some 9"
    "gdp asiaRecord = None"
    by (simp_all add: europeRecord_def asiaRecord_def)
  have s: "toStringJs (fieldOf Gdp asiaRecord) = ''null''"
    "toStringJs (fieldOf Gdp europeRecord) = ''5''"
    by (simp_all add: europeRecord_def asiaRecord_def showInt_def digitChar_def)
  note t = filteredCountries_comparator [of defaultCompare initialState "[]" Desc]
  have "compareRecords defaultCompare Desc Gdp europeRecord (europeRecord\<lparr>gdp := Some 9\<rparr>) = 4"
    using t [of europeRecord "europeRecord\<lparr>gdp := Some 9\<rparr>"] g by simp
  moreover have "compareRecords defaultCompare Desc Gdp asiaRecord europeRecord
       = defaultCompare ''null'' ''5'' * (- 1)"
    using t [of asiaRecord europeRecord] g s by simp
  ultimately show ?thesis using g by simp
qed

end
